theory Spec2Isabelle
  imports Complex_Main "HOL-Library.Word" "HOL-Library.Monad_Syntax"
begin

section \<open>Conventions of the embedding\<close>

text \<open>
  The repository holds three generations of one audio engine: namespace \<open>AudioSystem\<close>
  (AudioSystem.cpp), namespace \<open>Juke\<close> and namespace \<open>Audio\<close> (the newest one, with the
  pooled \<open>GlobalData\<close>). The definitions below embed \<open>Audio\<close> under the source's own
  names, and of \<open>Juke\<close> the render callback and the clip operations, under names prefixed
  with \<open>Juke_\<close> (fields with \<open>j\<close>).

  \<^item> A C++ \<open>float\<close> is modelled as a \<open>real\<close>: sums and products are exact, and there
    is no NaN and no infinity. Every concrete input used below is a small integer, on
    which float arithmetic is exact as well.
  \<^item> A handle (\<open>unsigned int\<close>) is a \<open>nat\<close>; cursors, lengths and loop counters, on which
    the code does arithmetic, are \<open>32 word\<close>.
  \<^item> A pointer to a pool slot (\<open>SampleData*\<close> into \<open>gData->sampleData\<close>) is the slot's
    index; \<open>nullptr\<close> is \<open>None\<close>. A heap buffer (\<open>float*\<close>) is \<open>Some\<close> of its contents, and
    \<open>None\<close> once it is \<open>nullptr\<close>, that is, after \<open>delete[]\<close>.
  \<^item> A queue is a list: \<open>front\<close> is the head, \<open>push\<close> appends.
  \<^item> An operation that indexes a pool or a buffer returns an \<open>option\<close>: \<open>None\<close> stands for
    undefined behaviour of the C++ program (a vector or buffer indexed out of range, a
    null buffer read, \<open>front\<close> of an empty queue, a float to int conversion out of range).
  \<^item> The engine is one thread of control: a callback runs between two operations, never
    during one.
\<close>

type_synonym Sample = nat
type_synonym Clip = nat

section \<open>Namespace Audio: data model\<close>

record SampleData =
  data :: "real list option"
  length_s :: "32 word"
  mono :: bool

datatype ClipState = Playing | Paused | Complete

record ClipData =
  sample :: "nat option"
  state :: ClipState
  sampleIndex :: "32 word"
  volume :: real
  pan :: real
  loopCount :: "32 word"

record Properties =
  bufferSize :: "32 word"
  sampleRate :: "32 word"
  maxSampleCount :: "32 word"
  maxClipCount :: "32 word"

record GlobalData =
  properties :: Properties
  availableSampleIds :: "Sample list"
  availableClipIds :: "Clip list"
  sampleData :: "SampleData list"
  clipData :: "ClipData list"
  errorString :: string

text \<open>The member initialisers of \<open>struct SampleData\<close> and \<open>struct ClipData\<close>.\<close>

definition SampleData_default :: SampleData where
  "SampleData_default = \<lparr>data = None, length_s = 0, mono = False\<rparr>"

definition ClipData_default :: ClipData where
  "ClipData_default =
     \<lparr>sample = None, state = Paused, sampleIndex = 0, volume = 1, pan = 0, loopCount = 0\<rparr>"

text \<open>Reading through a pointer into the sample pool, and reading a buffer element.\<close>

definition deref :: "SampleData list \<Rightarrow> nat \<Rightarrow> SampleData option" where
  "deref pool p = (if p < length pool then Some (pool ! p) else None)"

definition read_buf :: "real list option \<Rightarrow> nat \<Rightarrow> real option" where
  "read_buf b i = (case b of None \<Rightarrow> None | Some xs \<Rightarrow> if i < length xs then Some (xs ! i) else None)"

section \<open>Namespace Audio: slot operations\<close>

text \<open>\<open>SampleData::Reset\<close>: \<open>delete[] data\<close> when it is not null, then the defaults.\<close>

definition SampleData_Reset :: "SampleData \<Rightarrow> SampleData" where
  "SampleData_Reset s = s\<lparr>data := None, length_s := 0, mono := False\<rparr>"

definition ClipData_Reset :: "ClipData \<Rightarrow> ClipData" where
  "ClipData_Reset c =
     c\<lparr>sample := None, sampleIndex := 0, state := Paused, volume := 1, pan := 0, loopCount := 0\<rparr>"

text \<open>
  \<open>ClipData::IncrementSampleIndex\<close>. The comparison \<open>loopCount != -1\<close> is made on
  \<open>unsigned int\<close>, so \<open>-1\<close> is the word of all ones.
\<close>

definition IncrementSampleIndex :: "SampleData list \<Rightarrow> ClipData \<Rightarrow> ClipData option" where
  "IncrementSampleIndex pool c =
     (case sample c of
        None \<Rightarrow> Some c
      | Some p \<Rightarrow> do {
          s \<leftarrow> deref pool p;
          let c1 = c\<lparr>sampleIndex := sampleIndex c + 1\<rparr>;
          Some (if length_s s \<le> sampleIndex c1 then
                  (if loopCount c1 = 0 then c1\<lparr>state := Complete\<rparr>
                   else let c2 = c1\<lparr>sampleIndex := 0\<rparr> in
                        if loopCount c2 = - 1 then c2 else c2\<lparr>loopCount := loopCount c2 - 1\<rparr>)
                else c1)
        })"

text \<open>\<open>ClipData::Next\<close>: one amplitude, scaled by the volume, and the cursor advanced.\<close>

definition Next :: "SampleData list \<Rightarrow> ClipData \<Rightarrow> (real \<times> ClipData) option" where
  "Next pool c =
     (case sample c of
        None \<Rightarrow> Some (0, c)
      | Some p \<Rightarrow>
          if state c = Paused \<or> state c = Complete then Some (0, c)
          else do {
            s \<leftarrow> deref pool p;
            sampleValue \<leftarrow> read_buf (data s) (unat (sampleIndex c));
            c' \<leftarrow> IncrementSampleIndex pool c;
            Some (sampleValue * volume c, c')
          })"

text \<open>\<open>ClipData::NextStereo\<close>: one output frame of the clip.\<close>

definition NextStereo :: "SampleData list \<Rightarrow> ClipData \<Rightarrow> ((real \<times> real) \<times> ClipData) option" where
  "NextStereo pool c =
     (case sample c of
        None \<Rightarrow> Some ((0, 0), c)
      | Some p \<Rightarrow> do {
          s \<leftarrow> deref pool p;
          if mono s then do {
            (v, c') \<leftarrow> Next pool c;
            Some ((v, v), c')
          } else do {
            (l, c1) \<leftarrow> Next pool c;
            (r, c2) \<leftarrow> Next pool c1;
            Some ((l * (1 - pan c), r * (1 + pan c)), c2)
          }
        })"

section \<open>Namespace Audio: the engine\<close>

text \<open>
  \<open>Initialize\<close>, as far as the pools go: the id queues hold \<open>1 .. max\<close>, the pools have
  \<open>max + 1\<close> default slots (slot 0 is never handed out). The sums are \<open>uint32_t\<close> sums.
  The PortAudio calls that follow do not touch the pools.
\<close>

definition Initialize :: "Properties \<Rightarrow> GlobalData" where
  "Initialize props =
     \<lparr>properties = props,
      availableSampleIds = [1 ..< unat (maxSampleCount props + 1)],
      availableClipIds = [1 ..< unat (maxClipCount props + 1)],
      sampleData = replicate (unat (maxSampleCount props + 1)) SampleData_default,
      clipData = replicate (unat (maxClipCount props + 1)) ClipData_default,
      errorString = []\<rparr>"

text \<open>
  What \<open>CreateSample\<close> learns from the file system and from libsndfile about a file name.
  \<open>file_pcm\<close> is the decoded content, \<open>frames * channels\<close> amplitudes.
\<close>

record SndFile =
  file_exists :: bool
  file_regular :: bool
  file_error :: "string option"
  file_channels :: int
  file_samplerate :: int
  file_pcm :: "real list"

definition quoted :: "string \<Rightarrow> string" where
  "quoted s = [CHR 0x27] @ s @ [CHR 0x27]"

definition CreateSample :: "string \<Rightarrow> SndFile \<Rightarrow> GlobalData \<Rightarrow> (Sample \<times> GlobalData) option" where
  "CreateSample filename file g =
     (if availableSampleIds g = [] then
        Some (0, g\<lparr>errorString := ''Error creating sample '' @ quoted filename @ '': No available sample IDs.''\<rparr>)
      else if \<not> file_exists file then
        Some (0, g\<lparr>errorString := ''Error loading sample '' @ quoted filename @ '': File does not exist.''\<rparr>)
      else if \<not> file_regular file then
        Some (0, g\<lparr>errorString := ''Error loading sample '' @ quoted filename @ '': Path is not a file.''\<rparr>)
      else case file_error file of
        Some e \<Rightarrow>
          Some (0, g\<lparr>errorString := ''Error loading sample '' @ quoted filename @ '': '' @ e\<rparr>)
      | None \<Rightarrow>
        if file_channels file \<noteq> 1 \<and> file_channels file \<noteq> 2 then
          Some (0, g\<lparr>errorString := ''Error loading sample '' @ quoted filename @ '': Sample must be mono or stereo.''\<rparr>)
        else if file_samplerate file \<noteq> 44100 then
          Some (0, g\<lparr>errorString := ''Error loading sample '' @ quoted filename @ '': Sample must be 44100 Hz.''\<rparr>)
        else
          let sampleId = hd (availableSampleIds g);
              g1 = g\<lparr>availableSampleIds := tl (availableSampleIds g)\<rparr>
          in if sampleId < length (sampleData g1) then
               Some (sampleId,
                 g1\<lparr>sampleData := (sampleData g1)[sampleId :=
                    (SampleData_Reset (sampleData g1 ! sampleId))
                      \<lparr>data := Some (file_pcm file),
                       length_s := of_nat (length (file_pcm file)),
                       mono := (file_channels file = 1)\<rparr>]\<rparr>)
             else None)"

definition DestroySample :: "Sample \<Rightarrow> GlobalData \<Rightarrow> GlobalData option" where
  "DestroySample smp g =
     (if smp = 0 then Some (g\<lparr>errorString := ''Error destroying sample: Invalid sample.''\<rparr>)
      else if smp < length (sampleData g) then
        Some (g\<lparr>sampleData := (sampleData g)[smp := SampleData_Reset (sampleData g ! smp)],
                availableSampleIds := availableSampleIds g @ [smp]\<rparr>)
      else None)"

definition CreateClip :: "Sample \<Rightarrow> GlobalData \<Rightarrow> (Clip \<times> GlobalData) option" where
  "CreateClip smp g =
     (if smp = 0 then Some (0, g\<lparr>errorString := ''Error creating clip: Invalid sample.''\<rparr>)
      else if availableClipIds g = [] then
        Some (0, g\<lparr>errorString := ''Error creating clip: No available clip IDs.''\<rparr>)
      else
        let clipId = hd (availableClipIds g);
            g1 = g\<lparr>availableClipIds := tl (availableClipIds g)\<rparr>
        in if clipId < length (clipData g1) \<and> smp < length (sampleData g1) then
             Some (clipId,
               g1\<lparr>clipData := (clipData g1)[clipId :=
                  (ClipData_Reset (clipData g1 ! clipId))\<lparr>sample := Some smp\<rparr>]\<rparr>)
           else None)"

definition DestroyClip :: "Clip \<Rightarrow> GlobalData \<Rightarrow> GlobalData option" where
  "DestroyClip clip g =
     (if clip = 0 then Some g
      else if clip < length (clipData g) then
        Some (g\<lparr>clipData := (clipData g)[clip := ClipData_Reset (clipData g ! clip)],
                availableClipIds := availableClipIds g @ [clip]\<rparr>)
      else None)"

definition Play :: "Clip \<Rightarrow> GlobalData \<Rightarrow> GlobalData option" where
  "Play clip g =
     (if clip = 0 then Some g
      else if clip < length (clipData g) then
        Some (g\<lparr>clipData := (clipData g)[clip := (clipData g ! clip)\<lparr>state := Playing\<rparr>]\<rparr>)
      else None)"

definition Pause :: "Clip \<Rightarrow> GlobalData \<Rightarrow> GlobalData option" where
  "Pause clip g =
     (if clip = 0 then Some g
      else if clip < length (clipData g) then
        Some (g\<lparr>clipData := (clipData g)[clip := (clipData g ! clip)\<lparr>state := Paused\<rparr>]\<rparr>)
      else None)"

definition PlaySample :: "Sample \<Rightarrow> GlobalData \<Rightarrow> (Clip \<times> GlobalData) option" where
  "PlaySample smp g =
     (if smp = 0 then Some (0, g\<lparr>errorString := ''Error playing sample: Invalid sample.''\<rparr>)
      else do {
        (clip, g1) \<leftarrow> CreateClip smp g;
        if clip = 0 then
          Some (0, g1\<lparr>errorString := ''Error playing sample: '' @ errorString g1\<rparr>)
        else do {
          g2 \<leftarrow> Play clip g1;
          Some (clip, g2)
        }
      })"

definition GetClipVolume :: "Clip \<Rightarrow> GlobalData \<Rightarrow> real option" where
  "GetClipVolume clip g =
     (if clip = 0 then Some 0
      else if clip < length (clipData g) then Some (volume (clipData g ! clip)) else None)"

definition GetClipPan :: "Clip \<Rightarrow> GlobalData \<Rightarrow> real option" where
  "GetClipPan clip g =
     (if clip = 0 then Some 0
      else if clip < length (clipData g) then Some (pan (clipData g ! clip)) else None)"

text \<open>\<open>GetClipLoop\<close> returns \<open>int\<close>: the counter read as two's complement.\<close>

definition GetClipLoop :: "Clip \<Rightarrow> GlobalData \<Rightarrow> int option" where
  "GetClipLoop clip g =
     (if clip = 0 then Some 0
      else if clip < length (clipData g) then Some (sint (loopCount (clipData g ! clip))) else None)"

text \<open>
  \<open>GetClipPosition\<close> divides by the sample's length; with length 0 the float quotient is an
  infinity or a NaN, which has no value in this model.
\<close>

definition GetClipPosition :: "Clip \<Rightarrow> GlobalData \<Rightarrow> real option" where
  "GetClipPosition clip g =
     (if clip = 0 then Some 0
      else if clip < length (clipData g) then
        (case sample (clipData g ! clip) of
           None \<Rightarrow> Some 0
         | Some p \<Rightarrow> do {
             s \<leftarrow> deref (sampleData g) p;
             if length_s s = 0 then None
             else Some (real (unat (sampleIndex (clipData g ! clip))) / real (unat (length_s s)))
           })
      else None)"

definition SetClipVolume :: "Clip \<Rightarrow> real \<Rightarrow> GlobalData \<Rightarrow> GlobalData option" where
  "SetClipVolume clip v g =
     (if clip = 0 then Some g
      else if clip < length (clipData g) then
        Some (g\<lparr>clipData := (clipData g)[clip := (clipData g ! clip)\<lparr>volume := v\<rparr>]\<rparr>)
      else None)"

definition SetClipPan :: "Clip \<Rightarrow> real \<Rightarrow> GlobalData \<Rightarrow> GlobalData option" where
  "SetClipPan clip p g =
     (if clip = 0 then Some g
      else if clip < length (clipData g) then
        Some (g\<lparr>clipData := (clipData g)[clip := (clipData g ! clip)\<lparr>pan := p\<rparr>]\<rparr>)
      else None)"

text \<open>\<open>SetClipLoop\<close> takes an \<open>int\<close> and stores it in the \<open>unsigned int\<close> counter.\<close>

definition SetClipLoop :: "Clip \<Rightarrow> int \<Rightarrow> GlobalData \<Rightarrow> GlobalData option" where
  "SetClipLoop clip n g =
     (if clip = 0 then Some g
      else if clip < length (clipData g) then
        Some (g\<lparr>clipData := (clipData g)[clip := (clipData g ! clip)\<lparr>loopCount := word_of_int n\<rparr>]\<rparr>)
      else None)"

text \<open>
  \<open>SetClipPosition\<close>: \<open>static_cast<int>(position * length)\<close> truncates towards zero and is
  undefined outside the range of \<open>int\<close>; the result is stored in the \<open>uint32_t\<close> cursor.
\<close>

definition trunc_int :: "real \<Rightarrow> int" where
  "trunc_int x = (if 0 \<le> x then \<lfloor>x\<rfloor> else \<lceil>x\<rceil>)"

definition SetClipPosition :: "Clip \<Rightarrow> real \<Rightarrow> GlobalData \<Rightarrow> GlobalData option" where
  "SetClipPosition clip position g =
     (if clip = 0 then Some g
      else if clip < length (clipData g) then
        (case sample (clipData g ! clip) of
           None \<Rightarrow> Some g
         | Some p \<Rightarrow> do {
             s \<leftarrow> deref (sampleData g) p;
             let index = trunc_int (position * real (unat (length_s s)));
             if - (2 ^ 31) \<le> index \<and> index < 2 ^ 31 then
               Some (g\<lparr>clipData := (clipData g)[clip :=
                         (clipData g ! clip)\<lparr>sampleIndex := word_of_int index\<rparr>]\<rparr>)
             else None
           })
      else None)"

definition IsClipPlaying :: "Clip \<Rightarrow> GlobalData \<Rightarrow> bool option" where
  "IsClipPlaying clip g =
     (if clip = 0 then Some False
      else if clip < length (clipData g) then Some (state (clipData g ! clip) = Playing) else None)"

definition GetPlayingClipCount :: "GlobalData \<Rightarrow> int" where
  "GetPlayingClipCount g = int (length (filter (\<lambda>c. state c = Playing) (clipData g)))"

section \<open>Namespace Audio: the render callback and Flush\<close>

text \<open>A \<open>for\<close> loop over a list of indices whose body may have undefined behaviour.\<close>

fun for_each :: "('a \<Rightarrow> 's \<Rightarrow> 's option) \<Rightarrow> 'a list \<Rightarrow> 's \<Rightarrow> 's option" where
  "for_each body [] s = Some s"
| "for_each body (i # is) s = (case body i s of None \<Rightarrow> None | Some s' \<Rightarrow> for_each body is s')"

text \<open>
  The body of the inner loop of \<open>PortAudioCallback\<close> at frame \<open>i\<close>: the clip's next frame is
  added to \<open>out[2 * i]\<close> and \<open>out[2 * i + 1]\<close> (the two \<open>*out++ += ...\<close>).
\<close>

definition mix_frame :: "SampleData list \<Rightarrow> nat \<Rightarrow> ClipData \<times> real list \<Rightarrow> (ClipData \<times> real list) option" where
  "mix_frame pool i = (\<lambda>(c, out). do {
     (v, c') \<leftarrow> NextStereo pool c;
     let out1 = out[2 * i := out ! (2 * i) + fst v];
     Some (c', out1[2 * i + 1 := out1 ! (2 * i + 1) + snd v])
   })"

definition mix_clip :: "SampleData list \<Rightarrow> nat \<Rightarrow> ClipData \<times> real list \<Rightarrow> (ClipData \<times> real list) option" where
  "mix_clip pool framesPerBuffer = for_each (mix_frame pool) [0 ..< framesPerBuffer]"

text \<open>The outer loop, \<open>for (auto& clip : globalData->clipData)\<close>, skipping what is not Playing.\<close>

fun mix_clips :: "SampleData list \<Rightarrow> nat \<Rightarrow> ClipData list \<Rightarrow> real list \<Rightarrow> (ClipData list \<times> real list) option" where
  "mix_clips pool n [] out = Some ([], out)"
| "mix_clips pool n (c # cs) out =
     (if state c \<noteq> Playing then do {
        (cs', out') \<leftarrow> mix_clips pool n cs out;
        Some (c # cs', out')
      } else do {
        (c', out1) \<leftarrow> mix_clip pool n (c, out);
        (cs', out') \<leftarrow> mix_clips pool n cs out1;
        Some (c' # cs', out')
      })"

text \<open>
  \<open>PortAudioCallback\<close>: the output buffer of \<open>2 * framesPerBuffer\<close> floats is cleared, then
  every Playing clip is added to it. Nothing else is done to the buffer. The result is the
  buffer handed back to PortAudio and the engine with its clips advanced.
\<close>

definition PortAudioCallback :: "nat \<Rightarrow> GlobalData \<Rightarrow> (real list \<times> GlobalData) option" where
  "PortAudioCallback framesPerBuffer g = do {
     (cs, out) \<leftarrow> mix_clips (sampleData g) framesPerBuffer (clipData g) (replicate (framesPerBuffer * 2) 0);
     Some (out, g\<lparr>clipData := cs\<rparr>)
   }"

text \<open>\<open>Flush\<close>: every slot, slot 0 included, that is Complete goes through \<open>DestroyClip\<close>.\<close>

definition Flush :: "GlobalData \<Rightarrow> GlobalData option" where
  "Flush g =
     for_each (\<lambda>i g'. if state (clipData g' ! i) = Complete then DestroyClip i g' else Some g')
       [0 ..< length (clipData g)] g"

text \<open>
  \<open>n\<close> consecutive calls of \<open>NextStereo\<close> on one clip, which is what the inner loop of the
  callback does to a Playing clip, over one period or over several; the frames are kept.
  A sequence of callbacks with the given frame counts, of which only the engine is kept.
\<close>

fun NextStereo_n :: "nat \<Rightarrow> SampleData list \<Rightarrow> ClipData \<Rightarrow> ((real \<times> real) list \<times> ClipData) option" where
  "NextStereo_n 0 pool c = Some ([], c)"
| "NextStereo_n (Suc n) pool c = do {
     (v, c1) \<leftarrow> NextStereo pool c;
     (vs, c2) \<leftarrow> NextStereo_n n pool c1;
     Some (v # vs, c2)
   }"

fun run_callbacks :: "nat list \<Rightarrow> GlobalData \<Rightarrow> GlobalData option" where
  "run_callbacks [] g = Some g"
| "run_callbacks (n # ns) g = do {
     (out, g') \<leftarrow> PortAudioCallback n g;
     run_callbacks ns g'
   }"

section \<open>Namespace Juke\<close>

text \<open>
  The older engine keeps heap objects behind pointers: \<open>loadedSamples\<close> and \<open>playingClips\<close>
  are vectors of owning pointers (\<open>None\<close> is \<open>nullptr\<close>), a clip's \<open>sample\<close> pointer is the
  index of the \<open>loadedSamples\<close> slot that owns the object, and \<open>clipsToFree\<close> holds the clip
  objects that \<open>Stop\<close> detached and \<open>Flush\<close> will delete.
\<close>

record AudioSampleData =
  jdata :: "real list option"
  jsize :: "32 word"
  jstereo :: bool

record AudioClipData =
  jsample :: "nat option"
  jposition :: "32 word"
  jloop :: bool
  jvolume :: real
  jpan :: real
  jpaused :: bool
  jcomplete :: bool

record JukeData =
  javailableSampleIds :: "nat list"
  javailableClipsIds :: "nat list"
  loadedSamples :: "AudioSampleData option list"
  playingClips :: "AudioClipData option list"
  clipsToFree :: "AudioClipData list"
  clipsInFlight :: "32 word"
  error :: string







definition Juke_Clip :: "nat \<Rightarrow> JukeData \<Rightarrow> (nat \<times> JukeData) option" where
  "Juke_Clip smp j =
     (if smp = 0 then Some (0, j\<lparr>error := ''Error clipping sample: Invalid sample ID.''\<rparr>)
      else if length (loadedSamples j) \<le> smp then None
      else if loadedSamples j ! smp = None then
        Some (0, j\<lparr>error := ''Error clipping sample: Sample has not been loaded.''\<rparr>)
      else if javailableClipsIds j = [] then None
      else
        let clipId = hd (javailableClipsIds j);
            clip = \<lparr>jsample = Some smp, jposition = 0, jloop = False, jvolume = 1, jpan = 0,
                    jpaused = True, jcomplete = False\<rparr>
        in if clipId < length (playingClips j) then
             Some (clipId, j\<lparr>javailableClipsIds := tl (javailableClipsIds j),
                              playingClips := (playingClips j)[clipId := Some clip]\<rparr>)
           else None)"

definition Juke_Play :: "nat \<Rightarrow> JukeData \<Rightarrow> JukeData option" where
  "Juke_Play clip j =
     (if length (playingClips j) \<le> clip then None
      else case playingClips j ! clip of
        None \<Rightarrow> Some j
      | Some c \<Rightarrow>
          Some (j\<lparr>playingClips := (playingClips j)[clip :=
                     Some (c\<lparr>jpaused := False, jcomplete := False, jposition := 0\<rparr>)],
                  clipsInFlight := clipsInFlight j + 1\<rparr>))"

definition Juke_IsPlaying :: "nat \<Rightarrow> JukeData \<Rightarrow> bool option" where
  "Juke_IsPlaying clip j =
     (if length (playingClips j) \<le> clip then None
      else case playingClips j ! clip of
        None \<Rightarrow> Some False
      | Some c \<Rightarrow> Some (\<not> jcomplete c \<and> \<not> jpaused c))"

definition Juke_Stop :: "nat \<Rightarrow> JukeData \<Rightarrow> JukeData option" where
  "Juke_Stop clip j =
     (if length (playingClips j) \<le> clip then None
      else case playingClips j ! clip of
        None \<Rightarrow> Some j
      | Some c \<Rightarrow>
          Some (j\<lparr>clipsToFree := c # clipsToFree j,
                  playingClips := (playingClips j)[clip := None],
                  javailableClipsIds := javailableClipsIds j @ [clip],
                  clipsInFlight := clipsInFlight j - 1\<rparr>))"

section \<open>A small session of the Audio engine\<close>

text \<open>
  An engine for one sample and two clips, a mono file of one frame of amplitude 1, and the
  states reached by loading the file, creating two clips of it and playing them.
\<close>

definition demo_props :: Properties where
  "demo_props = \<lparr>bufferSize = 256, sampleRate = 44100, maxSampleCount = 1, maxClipCount = 2\<rparr>"

definition demo_file :: SndFile where
  "demo_file = \<lparr>file_exists = True, file_regular = True, file_error = None,
     file_channels = 1, file_samplerate = 44100, file_pcm = [1]\<rparr>"

definition clip_on_1 :: "ClipState \<Rightarrow> ClipData" where
  "clip_on_1 st = \<lparr>sample = Some 1, state = st, sampleIndex = 0, volume = 1, pan = 0, loopCount = 0\<rparr>"

definition g_init :: GlobalData where
  "g_init = \<lparr>properties = demo_props, availableSampleIds = [1], availableClipIds = [1, 2],
     sampleData = [SampleData_default, SampleData_default],
     clipData = [ClipData_default, ClipData_default, ClipData_default],
     errorString = []\<rparr>"

definition g_loaded :: GlobalData where
  "g_loaded = g_init\<lparr>availableSampleIds := [],
     sampleData := [SampleData_default, \<lparr>data = Some [1], length_s = 1, mono = True\<rparr>]\<rparr>"

definition g_bound :: GlobalData where
  "g_bound = g_loaded\<lparr>availableClipIds := [2],
     clipData := [ClipData_default, clip_on_1 Paused, ClipData_default]\<rparr>"

definition g_playing :: GlobalData where
  "g_playing = g_bound\<lparr>clipData := [ClipData_default, clip_on_1 Playing, ClipData_default]\<rparr>"


definition g_two :: GlobalData where
  "g_two = g_playing\<lparr>availableClipIds := [],
     clipData := [ClipData_default, clip_on_1 Playing, clip_on_1 Playing]\<rparr>"

definition g_freed :: GlobalData where
  "g_freed = g_two\<lparr>availableClipIds := [1],
     clipData := [ClipData_default, ClipData_default, clip_on_1 Playing]\<rparr>"


text \<open>
  A state of the Juke engine, cut down to three clip slots: two clips play the sample of
  slot 1, whose two amplitudes are 1.
\<close>

definition j_clip :: AudioClipData where
  "j_clip = \<lparr>jsample = Some 1, jposition = 0, jloop = False, jvolume = 1, jpan = 0,
     jpaused = False, jcomplete = False\<rparr>"

definition j_demo :: JukeData where
  "j_demo = \<lparr>javailableSampleIds = [], javailableClipsIds = [],
     loadedSamples = [None, Some \<lparr>jdata = Some [1, 1], jsize = 2, jstereo = True\<rparr>],
     playingClips = [None, Some j_clip, Some j_clip],
     clipsToFree = [], clipsInFlight = 2, error = []\<rparr>"

section \<open>Auxiliary notions of the proofs\<close>

text \<open>
  Where a clip \<open>c\<close>, started at cursor 0 with loop counter \<open>k\<close> on a mono sample of \<open>N\<close>
  amplitudes, stands after \<open>t\<close> frames; and an output buffer within \<open>[-1, 1]\<close>.
\<close>

definition clip_at :: "ClipData \<Rightarrow> nat \<Rightarrow> nat \<Rightarrow> nat \<Rightarrow> ClipData" where
  "clip_at c N k t =
     (if t < (k + 1) * N then c\<lparr>sampleIndex := of_nat (t mod N), loopCount := of_nat (k - t div N)\<rparr>
      else c\<lparr>sampleIndex := of_nat N, loopCount := 0, state := Complete\<rparr>)"


section \<open>The small session is a run of the engine\<close>

lemmas demo_defs = demo_props_def demo_file_def clip_on_1_def g_init_def g_loaded_def g_bound_def
  g_playing_def g_two_def g_freed_def SampleData_default_def ClipData_default_def



lemma reach_init: "Initialize demo_props = g_init"
  unfolding Initialize_def demo_defs by code_simp

lemma reach_loaded: "CreateSample ''a.wav'' demo_file g_init = Some (1, g_loaded)"
  by (simp add: CreateSample_def demo_defs SampleData_Reset_def)

lemma reach_bound: "CreateClip 1 g_loaded = Some (1, g_bound)"
  by (simp add: CreateClip_def demo_defs ClipData_Reset_def)

lemma reach_playing: "Play 1 g_bound = Some g_playing"
  by (simp add: Play_def demo_defs)

lemma reach_two: "do { (c, g) \<leftarrow> CreateClip 1 g_playing; Play c g } = Some g_two"
  by (simp add: CreateClip_def Play_def demo_defs ClipData_Reset_def)

section \<open>Handle 0\<close>

text \<open>
  Claim C8. Every operation of namespace \<open>Audio\<close> that takes a handle rejects handle 0, in
  the sample handle space (\<open>DestroySample\<close>, \<open>PlaySample\<close>, \<open>CreateClip\<close>) and in the clip
  handle space (the other twelve): it returns its sentinel (0, false, or nothing), whatever
  the pools hold, and leaves both pools and both id queues as they were. The three that
  take a sample handle record an error string, which is no pool slot.
\<close>

theorem handle_zero_rejected:
  "DestroySample 0 g = Some (g\<lparr>errorString := ''Error destroying sample: Invalid sample.''\<rparr>) \<and>
   PlaySample 0 g = Some (0, g\<lparr>errorString := ''Error playing sample: Invalid sample.''\<rparr>) \<and>
   CreateClip 0 g = Some (0, g\<lparr>errorString := ''Error creating clip: Invalid sample.''\<rparr>) \<and>
   DestroyClip 0 g = Some g \<and> Play 0 g = Some g \<and> Pause 0 g = Some g \<and>
   GetClipVolume 0 g = Some 0 \<and> GetClipPan 0 g = Some 0 \<and> GetClipLoop 0 g = Some 0 \<and>
   GetClipPosition 0 g = Some 0 \<and>
   SetClipVolume 0 v g = Some g \<and> SetClipPan 0 p g = Some g \<and> SetClipLoop 0 n g = Some g \<and>
   SetClipPosition 0 x g = Some g \<and> IsClipPlaying 0 g = Some False"
  by (simp add: DestroySample_def PlaySample_def CreateClip_def DestroyClip_def Play_def Pause_def
      GetClipVolume_def GetClipPan_def GetClipLoop_def GetClipPosition_def SetClipVolume_def
      SetClipPan_def SetClipLoop_def SetClipPosition_def IsClipPlaying_def)

section \<open>Play and Pause\<close>

text \<open>
  Claim C6. On a nonzero handle inside the clip pool, \<open>Play\<close> sets the slot's state to
  Playing and \<open>Pause\<close> sets it to Paused, from any state, so in particular Paused to Playing
  and Playing to Paused; the cursor, the volume, the pan, the loop counter and the sample
  binding of the slot are what they were.
\<close>

theorem play_pause_frame:
  assumes "clip \<noteq> 0" and "clip < length (clipData g)"
  shows "(\<exists>g'. Play clip g = Some g' \<and>
           state (clipData g' ! clip) = Playing \<and>
           sampleIndex (clipData g' ! clip) = sampleIndex (clipData g ! clip) \<and>
           volume (clipData g' ! clip) = volume (clipData g ! clip) \<and>
           pan (clipData g' ! clip) = pan (clipData g ! clip) \<and>
           loopCount (clipData g' ! clip) = loopCount (clipData g ! clip) \<and>
           sample (clipData g' ! clip) = sample (clipData g ! clip)) \<and>
         (\<exists>g'. Pause clip g = Some g' \<and>
           state (clipData g' ! clip) = Paused \<and>
           sampleIndex (clipData g' ! clip) = sampleIndex (clipData g ! clip) \<and>
           volume (clipData g' ! clip) = volume (clipData g ! clip) \<and>
           pan (clipData g' ! clip) = pan (clipData g ! clip) \<and>
           loopCount (clipData g' ! clip) = loopCount (clipData g ! clip) \<and>
           sample (clipData g' ! clip) = sample (clipData g ! clip))"
  using assms by (simp add: Play_def Pause_def)

text \<open>The Paused clip 1 of the session, played, and paused again.\<close>

theorem play_pause_frame_witness:
  "(1::nat) \<noteq> 0 \<and> 1 < length (clipData g_bound) \<and> clipData g_bound ! 1 = clip_on_1 Paused \<and>
   (\<exists>g'. Play 1 g_bound = Some g' \<and> state (clipData g' ! 1) = Playing \<and>
      sampleIndex (clipData g' ! 1) = sampleIndex (clip_on_1 Paused) \<and>
      sample (clipData g' ! 1) = sample (clip_on_1 Paused)) \<and>
   (\<exists>g'. Pause 1 g_bound = Some g' \<and> state (clipData g' ! 1) = Paused \<and>
      sampleIndex (clipData g' ! 1) = sampleIndex (clip_on_1 Paused) \<and>
      sample (clipData g' ! 1) = sample (clip_on_1 Paused))"
proof -
  have h: "(1::nat) \<noteq> 0" "1 < length (clipData g_bound)"
    and c: "clipData g_bound ! 1 = clip_on_1 Paused"
    by (simp_all add: g_bound_def)
  show ?thesis using h c play_pause_frame [OF h] by auto
qed

text \<open>
  The older \<open>Juke::Play\<close> is a restart instead: it sets the cursor of the clip to 0.
\<close>

lemma Juke_Play_restarts:
  "clip < length (playingClips j) \<Longrightarrow> playingClips j ! clip = Some c \<Longrightarrow>
   \<exists>j'. Juke_Play clip j = Some j' \<and>
     playingClips j' ! clip = Some (c\<lparr>jpaused := False, jcomplete := False, jposition := 0\<rparr>)"
  by (simp add: Juke_Play_def)

section \<open>DestroySample\<close>




text \<open>
  Claim C9, as the code has it. \<open>DestroySample 0\<close> changes no pool and no id queue (it
  records an error string). A nonzero handle inside the pool whose slot is already free
  (in its default state) is not rejected: the slot stays as it is and the handle is pushed
  on the sample id queue once more. A nonzero handle outside the pool is not checked, and
  the pool is indexed out of range.
\<close>

theorem destroy_sample_invalid:
  "DestroySample 0 g = Some (g\<lparr>errorString := ''Error destroying sample: Invalid sample.''\<rparr>) \<and>
   (smp \<noteq> 0 \<and> smp < length (sampleData g) \<and> sampleData g ! smp = SampleData_default \<longrightarrow>
      DestroySample smp g = Some (g\<lparr>availableSampleIds := availableSampleIds g @ [smp]\<rparr>)) \<and>
   (smp \<noteq> 0 \<and> length (sampleData g) \<le> smp \<longrightarrow> DestroySample smp g = None)"
proof -
  have "(sampleData g)[smp := SampleData_Reset (sampleData g ! smp)] = sampleData g"
    if "sampleData g ! smp = SampleData_default"
  proof -
    have "SampleData_Reset (sampleData g ! smp) = sampleData g ! smp"
      using that by (simp add: SampleData_Reset_def SampleData_default_def)
    then show ?thesis by simp
  qed
  then show ?thesis by (simp add: DestroySample_def)
qed

theorem destroy_sample_invalid_witness:
  "((1::nat) \<noteq> 0 \<and> 1 < length (sampleData g_init) \<and> sampleData g_init ! 1 = SampleData_default) \<and>
   DestroySample 1 g_init = Some (g_init\<lparr>availableSampleIds := availableSampleIds g_init @ [1]\<rparr>) \<and>
   ((5::nat) \<noteq> 0 \<and> length (sampleData g_init) \<le> 5) \<and> DestroySample 5 g_init = None"
proof -
  have h: "(1::nat) \<noteq> 0 \<and> 1 < length (sampleData g_init) \<and> sampleData g_init ! 1 = SampleData_default"
    and k: "(5::nat) \<noteq> 0 \<and> length (sampleData g_init) \<le> 5"
    by (simp_all add: g_init_def)
  show ?thesis
    using h k destroy_sample_invalid [of g_init 1] destroy_sample_invalid [of g_init 5] by blast
qed

text \<open>
  Against C9 as stated: right after \<open>Initialize\<close> sample handle 1 is free and on the queue.
  \<open>DestroySample 1\<close> puts it there a second time.
\<close>

theorem destroy_sample_free_counterexample:
  "availableSampleIds g_init = [1] \<and> sampleData g_init ! 1 = SampleData_default \<and>
   DestroySample 1 g_init = Some (g_init\<lparr>availableSampleIds := [1, 1]\<rparr>)"
  by (simp add: DestroySample_def SampleData_Reset_def demo_defs)

section \<open>CreateClip\<close>

text \<open>
  Claim C7, as the code has it. \<open>Audio::CreateClip 0\<close> fails: it returns 0 and allocates
  nothing. For a nonzero sample handle inside the pool, whether or not a sample is loaded
  in that slot, \<open>Audio::CreateClip\<close> takes the first id of the clip id queue, resets that
  clip slot, binds it to the sample slot and returns the id. The older \<open>Juke::Clip\<close> does
  reject both: handle 0, and a handle inside the pool whose slot holds no sample, return 0
  and allocate nothing.
\<close>

theorem create_clip_binds_any_slot:
  "CreateClip 0 g = Some (0, g\<lparr>errorString := ''Error creating clip: Invalid sample.''\<rparr>) \<and>
   (smp \<noteq> 0 \<and> smp < length (sampleData g) \<and> availableClipIds g = cid # ids \<and>
    cid < length (clipData g) \<longrightarrow>
      (\<exists>g'. CreateClip smp g = Some (cid, g') \<and> availableClipIds g' = ids \<and>
         clipData g' ! cid = ClipData_default\<lparr>sample := Some smp\<rparr>)) \<and>
   (smp = 0 \<or> smp < length (loadedSamples j) \<and> loadedSamples j ! smp = None \<longrightarrow>
      (\<exists>e. Juke_Clip smp j = Some (0, j\<lparr>error := e\<rparr>)))"
  by (auto simp add: CreateClip_def ClipData_Reset_def ClipData_default_def Juke_Clip_def)

theorem create_clip_binds_any_slot_witness:
  "((1::nat) \<noteq> 0 \<and> 1 < length (sampleData g_loaded) \<and> availableClipIds g_loaded = [1, 2] \<and>
    1 < length (clipData g_loaded)) \<and>
   (\<exists>g'. CreateClip 1 g_loaded = Some (1, g') \<and> availableClipIds g' = [2] \<and>
      clipData g' ! 1 = ClipData_default\<lparr>sample := Some 1\<rparr>) \<and>
   ((0::nat) = 0 \<or> 0 < length (loadedSamples j_demo) \<and> loadedSamples j_demo ! 0 = None) \<and>
   (\<exists>e. Juke_Clip 0 j_demo = Some (0, j_demo\<lparr>error := e\<rparr>))"
proof -
  have h: "(1::nat) \<noteq> 0 \<and> 1 < length (sampleData g_loaded) \<and> availableClipIds g_loaded = [1, 2] \<and>
    1 < length (clipData g_loaded)"
    and k: "(0::nat) = 0 \<or> 0 < length (loadedSamples j_demo) \<and> loadedSamples j_demo ! 0 = None"
    by (simp_all add: g_loaded_def g_init_def)
  show ?thesis
    using h k create_clip_binds_any_slot [of g_loaded 1 1 "[2]" j_demo]
      create_clip_binds_any_slot [of g_loaded 0 1 "[2]" j_demo]
    by blast
qed

text \<open>
  Against C7 as stated: right after \<open>Initialize\<close> no sample is loaded in slot 1, and
  \<open>CreateClip 1\<close> returns clip 1, bound to that empty slot.
\<close>

theorem create_clip_counterexample:
  "data (sampleData g_init ! 1) = None \<and>
   CreateClip 1 g_init =
     Some (1, g_init\<lparr>availableClipIds := [2],
                     clipData := [ClipData_default, ClipData_default\<lparr>sample := Some 1\<rparr>,
                                  ClipData_default]\<rparr>)"
  by (simp add: CreateClip_def ClipData_Reset_def demo_defs)

section \<open>Loops that keep an invariant\<close>

lemma for_each_fixed:
  "(\<And>i. i \<in> set is \<Longrightarrow> body i s = Some s) \<Longrightarrow> for_each body is s = Some s"
  by (induction "is") simp_all


section \<open>Play on a slot with no sample\<close>

lemma NextStereo_unbound: "sample c = None \<Longrightarrow> NextStereo pool c = Some ((0, 0), c)"
  by (simp add: NextStereo_def)

lemma mix_frame_unbound: "sample c = None \<Longrightarrow> mix_frame pool i (c, out) = Some (c, out)"
  by (simp add: mix_frame_def NextStereo_unbound)

lemma mix_clip_unbound: "sample c = None \<Longrightarrow> mix_clip pool n (c, out) = Some (c, out)"
  unfolding mix_clip_def by (rule for_each_fixed) (simp add: mix_frame_unbound)

lemma mix_clips_length:
  "mix_clips pool n cs out = Some (cs', out') \<Longrightarrow> length cs' = length cs"
  by (induction cs arbitrary: out cs' out')
     (auto split: if_splits prod.splits simp: bind_eq_Some_conv)

lemma mix_clips_unbound:
  "mix_clips pool n cs out = Some (cs', out') \<Longrightarrow> h < length cs \<Longrightarrow> sample (cs ! h) = None
   \<Longrightarrow> cs' ! h = cs ! h"
proof (induction cs arbitrary: out cs' out' h)
  case Nil
  then show ?case by simp
next
  case (Cons c cs)
  show ?case
  proof (cases h)
    case 0
    with Cons.prems show ?thesis
      by (auto split: if_splits prod.splits simp: bind_eq_Some_conv mix_clip_unbound)
  next
    case (Suc k)
    with Cons.prems Cons.IH [of _ _ _ k] show ?thesis
      by (auto split: if_splits prod.splits simp: bind_eq_Some_conv)
  qed
qed

lemma callback_unbound:
  assumes "PortAudioCallback n g = Some (out, g')" "h < length (clipData g)"
    "sample (clipData g ! h) = None"
  shows "clipData g' ! h = clipData g ! h \<and> length (clipData g') = length (clipData g)"
  using assms mix_clips_unbound mix_clips_length
  by (fastforce simp: PortAudioCallback_def bind_eq_Some_conv split: prod.splits)

lemma run_callbacks_unbound:
  "run_callbacks ns g = Some g' \<Longrightarrow> h < length (clipData g) \<Longrightarrow> sample (clipData g ! h) = None
   \<Longrightarrow> clipData g' ! h = clipData g ! h"
proof (induction ns arbitrary: g)
  case Nil
  then show ?case by simp
next
  case (Cons n ns)
  from Cons.prems(1) obtain out g1 where
    cb: "PortAudioCallback n g = Some (out, g1)" and rest: "run_callbacks ns g1 = Some g'"
    by (auto simp: bind_eq_Some_conv)
  from callback_unbound [OF cb Cons.prems(2,3)]
  have eq: "clipData g1 ! h = clipData g ! h" and len: "length (clipData g1) = length (clipData g)"
    by simp_all
  from Cons.IH [OF rest] Cons.prems eq len show ?case by simp
qed

lemma count_update:
  "h < length xs \<Longrightarrow> P (xs ! h) \<Longrightarrow> \<not> P y \<Longrightarrow>
   length (filter P xs) = Suc (length (filter P (xs[h := y])))"
proof (induction xs arbitrary: h)
  case Nil
  then show ?case by simp
next
  case (Cons x xs)
  then show ?case by (cases h) auto
qed

text \<open>
  Claim C10. For a nonzero handle \<open>h\<close> inside the clip pool, \<open>Play h\<close> sets the slot to
  Playing whatever the slot holds, and the slot then adds one to \<open>GetPlayingClipCount\<close>.
  When the slot has no sample bound (it was never handed out by \<open>CreateClip\<close>, or
  \<open>DestroyClip\<close> has reset it), each of its frames is \<open>(0, 0)\<close> and mixing it leaves the
  output buffer as it was; and after any sequence of callbacks the slot is what it was, so
  it is still Playing and never Complete.
\<close>

theorem play_unbound_slot:
  assumes "h \<noteq> 0" and "h < length (clipData g)"
  shows "\<exists>g'. Play h g = Some g' \<and>
           state (clipData g' ! h) = Playing \<and>
           sample (clipData g' ! h) = sample (clipData g ! h) \<and>
           GetPlayingClipCount g' =
             GetPlayingClipCount
               (g'\<lparr>clipData := (clipData g')[h := (clipData g' ! h)\<lparr>state := Paused\<rparr>]\<rparr>) + 1 \<and>
           (sample (clipData g ! h) = None \<longrightarrow>
              NextStereo (sampleData g') (clipData g' ! h) = Some ((0, 0), clipData g' ! h) \<and>
              (\<forall>n out. mix_clip (sampleData g') n (clipData g' ! h, out) =
                          Some (clipData g' ! h, out)) \<and>
              (\<forall>ns g''. run_callbacks ns g' = Some g'' \<longrightarrow>
                          clipData g'' ! h = clipData g' ! h \<and>
                          state (clipData g'' ! h) = Playing))"
proof -
  define g' where "g' = g\<lparr>clipData := (clipData g)[h := (clipData g ! h)\<lparr>state := Playing\<rparr>]\<rparr>"
  have play: "Play h g = Some g'"
    using assms by (simp add: Play_def g'_def)
  have len: "h < length (clipData g')" and st: "state (clipData g' ! h) = Playing"
    and sm: "sample (clipData g' ! h) = sample (clipData g ! h)"
    using assms by (simp_all add: g'_def)
  have cnt: "GetPlayingClipCount g' =
      GetPlayingClipCount (g'\<lparr>clipData := (clipData g')[h := (clipData g' ! h)\<lparr>state := Paused\<rparr>]\<rparr>) + 1"
    using count_update [of h "clipData g'" "\<lambda>c. state c = Playing" "(clipData g' ! h)\<lparr>state := Paused\<rparr>"] len st
    by (simp add: GetPlayingClipCount_def)
  have silent: "NextStereo (sampleData g') (clipData g' ! h) = Some ((0, 0), clipData g' ! h) \<and>
      (\<forall>n out. mix_clip (sampleData g') n (clipData g' ! h, out) = Some (clipData g' ! h, out)) \<and>
      (\<forall>ns g''. run_callbacks ns g' = Some g'' \<longrightarrow>
                  clipData g'' ! h = clipData g' ! h \<and> state (clipData g'' ! h) = Playing)"
    if "sample (clipData g ! h) = None"
  proof -
    from that sm have none: "sample (clipData g' ! h) = None" by simp
    show ?thesis
      using NextStereo_unbound [OF none] mix_clip_unbound [OF none]
        run_callbacks_unbound [OF _ len none] st
      by simp
  qed
  have imp: "sample (clipData g ! h) = None \<longrightarrow>
      NextStereo (sampleData g') (clipData g' ! h) = Some ((0, 0), clipData g' ! h) \<and>
      (\<forall>n out. mix_clip (sampleData g') n (clipData g' ! h, out) = Some (clipData g' ! h, out)) \<and>
      (\<forall>ns g''. run_callbacks ns g' = Some g'' \<longrightarrow>
                  clipData g'' ! h = clipData g' ! h \<and> state (clipData g'' ! h) = Playing)"
    by (rule impI) (rule silent)
  show ?thesis
    by (rule exI [of _ g']) (intro conjI play st sm cnt imp)
qed

text \<open>
  Clip slot 1 right after \<open>Initialize\<close>, which no \<open>CreateClip\<close> has handed out: played, it
  is the one Playing clip, and a callback of four frames leaves it Playing.
\<close>

theorem play_unbound_slot_witness:
  "((1::nat) \<noteq> 0 \<and> 1 < length (clipData g_init) \<and> sample (clipData g_init ! 1) = None) \<and>
   (\<exists>g'. Play 1 g_init = Some g' \<and> state (clipData g' ! 1) = Playing \<and>
      GetPlayingClipCount g' = 1 \<and>
      (\<exists>out g''. PortAudioCallback 4 g' = Some (out, g'') \<and> state (clipData g'' ! 1) = Playing))"
proof -
  have h: "(1::nat) \<noteq> 0" "1 < length (clipData g_init)"
    and u: "sample (clipData g_init ! 1) = None"
    by (simp_all add: demo_defs)
  define g' where "g' = g_init\<lparr>clipData := [ClipData_default, ClipData_default\<lparr>state := Playing\<rparr>, ClipData_default]\<rparr>"
  have p: "Play 1 g_init = Some g'"
    by (simp add: Play_def demo_defs g'_def)
  have n: "GetPlayingClipCount g' = 1"
    by (simp add: GetPlayingClipCount_def demo_defs g'_def)
  from play_unbound_slot [OF h] p u
  have m: "mix_clip (sampleData g') 4 (clipData g' ! 1, out) = Some (clipData g' ! 1, out)" for out
    by auto
  have s: "state (clipData g' ! 1) = Playing"
    by (simp add: g'_def demo_defs)
  have cb: "PortAudioCallback 4 g' = Some (replicate (4 * 2) 0, g')"
    using m [of "replicate (4 * 2) 0"]
    by (simp add: PortAudioCallback_def g'_def demo_defs)
  have "\<exists>out g''. PortAudioCallback 4 g' = Some (out, g'') \<and> state (clipData g'' ! 1) = Playing"
    using cb s by simp
  then have "\<exists>g'. Play 1 g_init = Some g' \<and> state (clipData g' ! 1) = Playing \<and>
      GetPlayingClipCount g' = 1 \<and>
      (\<exists>out g''. PortAudioCallback 4 g' = Some (out, g'') \<and> state (clipData g'' ! 1) = Playing)"
    by (intro exI [of _ g'] conjI p s n)
  with h u show ?thesis by - (intro conjI; assumption)
qed

section \<open>Stopping a clip\<close>

text \<open>
  Claim C2, as the code has it. Stopping a clip makes it not playing at once, and puts its
  handle back on the clip id queue in the same call, with no \<open>Flush\<close> in between:
  \<open>Audio::DestroyClip\<close> on a nonzero handle inside the pool, and \<open>Juke::Stop\<close> on a handle
  whose slot holds a clip. In Juke it is the clip object whose deletion waits for \<open>Flush\<close>
  (it goes to \<open>clipsToFree\<close>), not the handle.
\<close>

theorem stop_releases_handle:
  "(clip \<noteq> 0 \<and> clip < length (clipData g) \<longrightarrow>
      (\<exists>g'. DestroyClip clip g = Some g' \<and> IsClipPlaying clip g' = Some False \<and>
         availableClipIds g' = availableClipIds g @ [clip])) \<and>
   (clip < length (playingClips j) \<and> playingClips j ! clip = Some c \<longrightarrow>
      (\<exists>j'. Juke_Stop clip j = Some j' \<and> Juke_IsPlaying clip j' = Some False \<and>
         javailableClipsIds j' = javailableClipsIds j @ [clip] \<and>
         clipsToFree j' = c # clipsToFree j))"
  by (simp add: DestroyClip_def IsClipPlaying_def ClipData_Reset_def Juke_Stop_def Juke_IsPlaying_def)

theorem stop_releases_handle_witness:
  "((1::nat) \<noteq> 0 \<and> 1 < length (clipData g_two)) \<and>
   (\<exists>g'. DestroyClip 1 g_two = Some g' \<and> IsClipPlaying 1 g' = Some False \<and>
      availableClipIds g' = availableClipIds g_two @ [1]) \<and>
   (1 < length (playingClips j_demo) \<and> playingClips j_demo ! 1 = Some j_clip) \<and>
   (\<exists>j'. Juke_Stop 1 j_demo = Some j' \<and> Juke_IsPlaying 1 j' = Some False \<and>
      javailableClipsIds j' = javailableClipsIds j_demo @ [1] \<and>
      clipsToFree j' = j_clip # clipsToFree j_demo)"
proof -
  have h: "(1::nat) \<noteq> 0 \<and> 1 < length (clipData g_two)"
    and k: "1 < length (playingClips j_demo) \<and> playingClips j_demo ! 1 = Some j_clip"
    by (simp_all add: demo_defs j_demo_def)
  show ?thesis using h k stop_releases_handle [of 1 g_two j_demo j_clip] by blast
qed

text \<open>
  Against C2 as stated: with both clip handles in use and the id queue empty,
  \<open>DestroyClip 1\<close> puts handle 1 on the queue, and the next \<open>CreateClip\<close> returns it. No
  \<open>Flush\<close> has run.
\<close>

theorem stop_counterexample:
  "availableClipIds g_two = [] \<and>
   DestroyClip 1 g_two = Some g_freed \<and>
   IsClipPlaying 1 g_freed = Some False \<and>
   availableClipIds g_freed = [1] \<and>
   CreateClip 1 g_freed =
     Some (1, g_freed\<lparr>availableClipIds := [],
                      clipData := [ClipData_default, clip_on_1 Paused, clip_on_1 Playing]\<rparr>)"
  by (simp add: DestroyClip_def IsClipPlaying_def CreateClip_def ClipData_Reset_def demo_defs)

section \<open>The range of the output\<close>










section \<open>Panning\<close>





section \<open>Playing a mono sample to its end\<close>

lemma unat_of_nat32: "i < 2 ^ 32 \<Longrightarrow> unat (of_nat i :: 32 word) = i"
  by (simp add: unat_of_nat)

lemma of_nat_le32: "m < 2 ^ 32 \<Longrightarrow> n < 2 ^ 32 \<Longrightarrow> (of_nat m :: 32 word) \<le> of_nat n \<longleftrightarrow> m \<le> n"
  by (simp add: word_of_nat_less_eq_iff take_bit_nat_eq_self)

lemma of_nat_not_sentinel: "j < 2 ^ 32 - 1 \<Longrightarrow> (of_nat j :: 32 word) \<noteq> - 1"
proof
  assume a: "j < 2 ^ 32 - 1" and b: "(of_nat j :: 32 word) = - 1"
  have "unat (of_nat j :: 32 word) = j" using a by (simp add: unat_of_nat)
  moreover have "unat (- 1 :: 32 word) = 2 ^ 32 - 1"
    by (simp add: unsigned_minus_1_eq_mask mask_eq_exp_minus_1)
  ultimately show False using a b by simp
qed

lemma of_nat_pred32: "0 < j \<Longrightarrow> (of_nat j :: 32 word) - 1 = of_nat (j - 1)"
  by (cases j) simp_all

lemma of_nat_nonzero32: "0 < j \<Longrightarrow> j < 2 ^ 32 \<Longrightarrow> (of_nat j :: 32 word) \<noteq> 0"
  using of_nat_neq_0 [of j, where 'a = 32] by simp

text \<open>One frame of a mono clip that is \<open>t\<close> frames into its \<open>(k + 1) * N\<close> frames.\<close>

lemma NextStereo_clip_at:
  assumes "p < length pool" and "mono (pool ! p)" and "data (pool ! p) = Some xs"
    and "length_s (pool ! p) = of_nat (length xs)" and "0 < length xs" and "length xs < 2 ^ 32"
    and "sample c = Some p" and "state c = Playing" and "k < 2 ^ 32 - 1"
    and "t < (k + 1) * length xs"
  shows "NextStereo pool (clip_at c (length xs) k t) =
           Some ((xs ! (t mod length xs) * volume c, xs ! (t mod length xs) * volume c),
                 clip_at c (length xs) k (Suc t))"
proof -
  let ?N = "length xs"
  let ?i = "t mod ?N"
  let ?j = "k - t div ?N"
  define cur where "cur = c\<lparr>sampleIndex := of_nat ?i, loopCount := of_nat ?j\<rparr>"
  have cur: "clip_at c ?N k t = cur"
    using assms(10) by (simp add: clip_at_def cur_def)
  have i: "?i < ?N" using assms(5) by simp
  have i32: "?i < 2 ^ 32" "Suc ?i < 2 ^ 32" using i assms(6) by simp_all
  have "t div ?N < k + 1"
    using assms(5,10) by (simp only: div_less_iff_less_mult)
  then have q: "t div ?N \<le> k" by simp
  have td: "t div ?N * ?N + ?i = t" by simp
  have j32: "?j < 2 ^ 32 - 1" using assms(9) by simp
  have rd: "read_buf (data (pool ! p)) (unat (sampleIndex cur)) = Some (xs ! ?i)"
    using assms(3) i i32 by (simp add: read_buf_def cur_def unat_of_nat32)
  have nxt: "sampleIndex cur + 1 = of_nat (Suc ?i)"
    by (simp add: cur_def)
  have cmp: "(length_s (pool ! p) \<le> sampleIndex cur + 1) \<longleftrightarrow> ?N \<le> Suc ?i"
    unfolding nxt assms(4) by (rule of_nat_le32 [OF assms(6) i32(2)])
  have inc: "IncrementSampleIndex pool cur = Some (clip_at c ?N k (Suc t))"
  proof (cases "Suc ?i < ?N")
    case True
    then have m: "Suc t mod ?N = Suc ?i" and d: "Suc t div ?N = t div ?N"
      by (simp_all add: mod_Suc div_Suc)
    have "(t div ?N + 1) * ?N \<le> (k + 1) * ?N"
      using q by (intro mult_le_mono1; simp)
    moreover have "Suc t < (t div ?N + 1) * ?N"
      using td True by (simp only: add_mult_distrib; linarith?)
    ultimately have "Suc t < (k + 1) * ?N" by linarith
    then show ?thesis
      using True assms(1,7) cmp m d
      by (simp add: IncrementSampleIndex_def deref_def clip_at_def cur_def Let_def)
  next
    case False
    then have e: "Suc ?i = ?N" using i by simp
    then have m: "Suc t mod ?N = 0" and d: "Suc t div ?N = Suc (t div ?N)"
      by (simp_all add: mod_Suc div_Suc)
    have idx: "(of_nat ?i :: 32 word) + 1 = of_nat ?N"
      using e by (metis of_nat_Suc add.commute)
    show ?thesis
    proof (cases "?j = 0")
      case True
      then have "t div ?N = k" using q by simp
      then have "Suc t = (k + 1) * ?N"
        using td e by (simp only: add_mult_distrib; linarith?)
      then have "\<not> Suc t < (k + 1) * ?N" by simp
      then show ?thesis
        using True e assms(1,7) cmp idx
        by (simp add: IncrementSampleIndex_def deref_def clip_at_def cur_def Let_def)
    next
      case False
      then have "t div ?N + 1 \<le> k" using q by simp
      then have "(t div ?N + 1) * ?N \<le> k * ?N"
        by (intro mult_le_mono1; simp)
      moreover have "Suc t = (t div ?N + 1) * ?N"
        using td e by (simp only: add_mult_distrib; linarith?)
      ultimately have lt: "Suc t < (k + 1) * ?N"
        using assms(5) by (simp only: add_mult_distrib; linarith?)
      have nz: "(of_nat ?j :: 32 word) \<noteq> 0" using False j32 of_nat_nonzero32 [of ?j] by simp
      have ns: "(of_nat ?j :: 32 word) \<noteq> - 1" using j32 by (rule of_nat_not_sentinel)
      have pr: "(of_nat ?j :: 32 word) - 1 = of_nat (k - Suc (t div ?N))"
        using False of_nat_pred32 [of ?j] by simp
      show ?thesis
        using lt e assms(1,7) cmp m d nz ns pr idx
        by (simp add: IncrementSampleIndex_def deref_def clip_at_def cur_def Let_def)
    qed
  qed
  have nx: "Next pool cur = Some (xs ! ?i * volume c, clip_at c ?N k (Suc t))"
    using assms(1,7,8) rd inc by (simp add: Next_def deref_def cur_def)
  show ?thesis
    unfolding cur using assms(1,2,7) nx by (simp add: NextStereo_def deref_def cur_def)
qed

lemma NextStereo_n_clip_at:
  assumes "p < length pool" and "mono (pool ! p)" and "data (pool ! p) = Some xs"
    and "length_s (pool ! p) = of_nat (length xs)" and "0 < length xs" and "length xs < 2 ^ 32"
    and "sample c = Some p" and "state c = Playing" and "k < 2 ^ 32 - 1"
  shows "t + n \<le> (k + 1) * length xs \<Longrightarrow>
         NextStereo_n n pool (clip_at c (length xs) k t) =
           Some (map (\<lambda>u. (xs ! (u mod length xs) * volume c, xs ! (u mod length xs) * volume c))
                   [t ..< t + n],
                 clip_at c (length xs) k (t + n))"
proof (induction n arbitrary: t)
  case 0
  then show ?case by simp
next
  case (Suc n)
  then have lt: "t < (k + 1) * length xs" and rest: "Suc t + n \<le> (k + 1) * length xs"
    by simp_all
  have e: "t + Suc n = Suc t + n" by simp
  have u: "[t ..< Suc t + n] = t # [Suc t ..< Suc t + n]"
    by (rule upt_conv_Cons) simp
  show ?case
    unfolding e u using NextStereo_clip_at [OF assms lt] Suc.IH [OF rest] by simp
qed

text \<open>A clip that is not Playing yields silence and stays as it is.\<close>

lemma NextStereo_silent:
  "state c \<noteq> Playing \<Longrightarrow> (\<forall>p. sample c = Some p \<longrightarrow> p < length pool) \<Longrightarrow>
   NextStereo pool c = Some ((0, 0), c)"
  by (cases "state c") (auto simp: NextStereo_def Next_def deref_def split: option.splits)

lemma NextStereo_n_silent:
  "state c \<noteq> Playing \<Longrightarrow> (\<forall>p. sample c = Some p \<longrightarrow> p < length pool) \<Longrightarrow>
   NextStereo_n n pool c = Some (replicate n (0, 0), c)"
  by (induction n) (simp_all add: NextStereo_silent)

text \<open>
  The inner loop of the callback moves the clip as \<open>NextStereo_n\<close> does, whatever the
  output buffer holds.
\<close>

lemma mix_frames_clip:
  "map_option fst (for_each (mix_frame pool) is (c, out)) =
   map_option snd (NextStereo_n (length is) pool c)"
proof (induction "is" arbitrary: c out)
  case Nil
  then show ?case by simp
next
  case (Cons i "is")
  show ?case
  proof (cases "NextStereo pool c")
    case None
    then show ?thesis by (simp add: mix_frame_def)
  next
    case (Some r)
    obtain v c1 where r: "r = (v, c1)" by (cases r)
    obtain out1 where "mix_frame pool i (c, out) = Some (c1, out1)"
      using Some r by (simp add: mix_frame_def Let_def)
    then show ?thesis
      using Some r Cons.IH [of c1 out1]
      by (cases "NextStereo_n (length is) pool c1") (auto simp: map_option_case split: option.splits)
  qed
qed

lemma mix_clip_moves_clip:
  "map_option fst (mix_clip pool n (c, out)) = map_option snd (NextStereo_n n pool c)"
  unfolding mix_clip_def using mix_frames_clip [of pool "[0 ..< n]" c out] by simp

lemma mix_clip_silent:
  assumes "state c \<noteq> Playing" and "\<forall>p. sample c = Some p \<longrightarrow> p < length pool"
  shows "mix_clip pool n (c, out) = Some (c, out)"
  unfolding mix_clip_def
  by (rule for_each_fixed) (simp add: mix_frame_def NextStereo_silent [OF assms])

text \<open>
  Claim C5. A clip is bound to a mono sample of \<open>N\<close> frames (\<open>N\<close> at least 1, the buffer and
  the length field as \<open>CreateSample\<close> sets them), Playing, at cursor 0, with loop counter \<open>k\<close>
  below the sentinel \<open>2^32 - 1\<close>. Then \<open>(k + 1) * N\<close> frames, drawn by \<open>NextStereo\<close> or mixed
  by the inner loop of the callback, bring it to Complete, and they are the sample played
  \<open>k + 1\<close> times, each amplitude times the volume on both channels; after fewer frames the
  clip is still Playing; and every frame after completion is \<open>(0, 0)\<close>, leaves the clip as
  it is, and leaves the output buffer as it is.
\<close>

theorem mono_clip_completes:
  assumes "p < length pool" and "mono (pool ! p)" and "data (pool ! p) = Some xs"
    and "length_s (pool ! p) = of_nat (length xs)" and "0 < length xs" and "length xs < 2 ^ 32"
    and "sample c = Some p" and "state c = Playing" and "sampleIndex c = 0"
    and "loopCount c = of_nat k" and "k < 2 ^ 32 - 1"
  shows "\<exists>c'. NextStereo_n ((k + 1) * length xs) pool c =
                 Some (map (\<lambda>t. (xs ! (t mod length xs) * volume c, xs ! (t mod length xs) * volume c))
                         [0 ..< (k + 1) * length xs], c') \<and>
              (\<forall>out. \<exists>out'. mix_clip pool ((k + 1) * length xs) (c, out) = Some (c', out')) \<and>
              state c' = Complete \<and>
              (\<forall>m. NextStereo_n m pool c' = Some (replicate m (0, 0), c')) \<and>
              (\<forall>m out. mix_clip pool m (c', out) = Some (c', out)) \<and>
              (\<forall>n < (k + 1) * length xs.
                 \<exists>vs c''. NextStereo_n n pool c = Some (vs, c'') \<and> state c'' = Playing)"
proof -
  let ?N = "length xs"
  let ?T = "(k + 1) * ?N"
  note pre = assms(1-8,11)
  have start: "clip_at c ?N k 0 = c"
    using assms(5,9,10) by (simp add: clip_at_def)
  define c' where "c' = clip_at c ?N k ?T"
  have run: "NextStereo_n ?T pool c =
      Some (map (\<lambda>t. (xs ! (t mod ?N) * volume c, xs ! (t mod ?N) * volume c)) [0 ..< ?T], c')"
    using NextStereo_n_clip_at [OF pre, of 0 ?T] start by (simp add: c'_def)
  have mixed: "\<exists>out'. mix_clip pool ?T (c, out) = Some (c', out')" for out
    using mix_clip_moves_clip [of pool ?T c out] run
    by (cases "mix_clip pool ?T (c, out)") auto
  have fin: "state c' = Complete" and bound: "sample c' = Some p"
    using assms(7) by (simp_all add: c'_def clip_at_def)
  have np: "state c' \<noteq> Playing" and inr: "\<forall>q. sample c' = Some q \<longrightarrow> q < length pool"
    using fin bound assms(1) by simp_all
  have silent: "NextStereo_n m pool c' = Some (replicate m (0, 0), c')" for m
    using np inr by (rule NextStereo_n_silent)
  have quiet: "mix_clip pool m (c', out) = Some (c', out)" for m out
    using np inr by (rule mix_clip_silent)
  have before: "\<exists>vs c''. NextStereo_n n pool c = Some (vs, c'') \<and> state c'' = Playing"
    if "n < ?T" for n
  proof -
    have "state (clip_at c ?N k n) = Playing"
      using that assms(8) by (simp add: clip_at_def)
    then show ?thesis
      using NextStereo_n_clip_at [OF pre, of 0 n] that start by simp
  qed
  show ?thesis
  proof (intro exI [of _ c'] conjI allI impI)
  qed (use run mixed fin silent quiet before in simp_all)
qed

text \<open>
  The mono sample of the session has one frame. With loop counter 2 the clip yields that
  frame three times and is Complete after the third; after two frames it is still Playing.
\<close>

theorem mono_clip_completes_witness:
  "(1 < length (sampleData g_loaded) \<and> mono (sampleData g_loaded ! 1) \<and>
    data (sampleData g_loaded ! 1) = Some [1] \<and>
    length_s (sampleData g_loaded ! 1) = of_nat (length [1::real]) \<and>
    0 < length [1::real] \<and> length [1::real] < 2 ^ 32 \<and>
    sample ((clip_on_1 Playing)\<lparr>loopCount := 2\<rparr>) = Some 1 \<and>
    state ((clip_on_1 Playing)\<lparr>loopCount := 2\<rparr>) = Playing \<and>
    sampleIndex ((clip_on_1 Playing)\<lparr>loopCount := 2\<rparr>) = 0 \<and>
    loopCount ((clip_on_1 Playing)\<lparr>loopCount := 2\<rparr>) = of_nat 2 \<and> (2::nat) < 2 ^ 32 - 1) \<and>
   (\<exists>c'. NextStereo_n 3 (sampleData g_loaded) ((clip_on_1 Playing)\<lparr>loopCount := 2\<rparr>) =
            Some ([(1, 1), (1, 1), (1, 1)], c') \<and> state c' = Complete \<and>
          NextStereo_n 5 (sampleData g_loaded) c' = Some (replicate 5 (0, 0), c')) \<and>
   (\<exists>vs c''. NextStereo_n 2 (sampleData g_loaded) ((clip_on_1 Playing)\<lparr>loopCount := 2\<rparr>) =
            Some (vs, c'') \<and> state c'' = Playing)"
proof -
  let ?c = "(clip_on_1 Playing)\<lparr>loopCount := 2\<rparr>"
  let ?pool = "sampleData g_loaded"
  have h: "1 < length ?pool" "mono (?pool ! 1)" "data (?pool ! 1) = Some [1]"
    "length_s (?pool ! 1) = of_nat (length [1::real])" "0 < length [1::real]"
    "length [1::real] < 2 ^ 32" "sample ?c = Some 1" "state ?c = Playing" "sampleIndex ?c = 0"
    "loopCount ?c = of_nat 2" "(2::nat) < 2 ^ 32 - 1"
    by (simp_all add: demo_defs)
  have three: "(2 + 1) * length [1::real] = 3" by simp
  have frames: "map (\<lambda>t. ([1::real] ! (t mod length [1::real]) * volume ?c,
        [1] ! (t mod length [1::real]) * volume ?c)) [0 ..< 3] = [(1, 1), (1, 1), (1, 1)]"
    by (simp add: clip_on_1_def upt_conv_Cons)
  from mono_clip_completes [OF h, unfolded three frames] show ?thesis
    using h by (auto simp del: NextStereo_n.simps)
qed

end
